theory Spec2Isabelle
  imports Complex_Main "HOL-Library.Multiset"
begin

section \<open>Floating-point arithmetic as a parameter\<close>

text \<open>
  The numbers of the program are Python floats (\<open>List[float]\<close>, binary64). Their
  operations round, overflow to infinity and produce NaN, so they are not the operations
  of the real numbers. The embedding keeps the type of the numbers abstract (\<open>'f\<close>) and
  takes every primitive the sources apply to a number as a field of \<open>arith\<close>:
  \<^item> \<open>fadd\<close>, \<open>fsub\<close>, \<open>fmul\<close>, \<open>fdiv\<close>: \<open>x + y\<close>, \<open>x - y\<close>, \<open>x * y\<close> and
    \<open>x / y\<close> (the sources divide by a non-zero number only);
  \<^item> \<open>flt\<close>: the comparison \<open>x < y\<close>, which the builtins \<open>min\<close> and \<open>max\<close> use;
  \<^item> \<open>is_zero\<close>: the test \<open>v == 0\<close>;
  \<^item> \<open>float_of_int\<close>: the float an integer becomes in a mixed operation, and the
    literal \<open>0.0\<close>;
  \<^item> \<open>fsum\<close>: the builtin \<open>sum\<close> on a list of floats (additions from the left in
    CPython before 3.12, a compensated summation since);
  \<^item> \<open>int_truediv\<close>: \<open>a / b\<close> on two integers, a float;
  \<^item> \<open>fround\<close>: the builtin \<open>round(x, ndigits)\<close>.
  What is proved for every \<open>arith\<close> holds for binary64.
\<close>

record 'f arith =
  fadd :: "'f \<Rightarrow> 'f \<Rightarrow> 'f"
  fsub :: "'f \<Rightarrow> 'f \<Rightarrow> 'f"
  fmul :: "'f \<Rightarrow> 'f \<Rightarrow> 'f"
  fdiv :: "'f \<Rightarrow> 'f \<Rightarrow> 'f"
  flt :: "'f \<Rightarrow> 'f \<Rightarrow> bool"
  is_zero :: "'f \<Rightarrow> bool"
  float_of_int :: "int \<Rightarrow> 'f"
  fsum :: "'f list \<Rightarrow> 'f"
  int_truediv :: "int \<Rightarrow> int \<Rightarrow> 'f"
  fround :: "'f \<Rightarrow> nat \<Rightarrow> 'f"

text \<open>
  The arithmetic of the real numbers, to run examples. \<open>round(x, ndigits)\<close> goes to the
  nearest multiple of \<open>10 ^ -ndigits\<close>, a tie to the even multiple. Binary64 computes
  the same values wherever every operand, intermediate value and result is a binary64
  number, which holds at the inputs the examples use.
\<close>

definition round_half_even :: "real \<Rightarrow> int" where
  "round_half_even y =
     (let f = \<lfloor>y\<rfloor>; r = y - of_int f
      in if r < 1 / 2 then f
         else if 1 / 2 < r then f + 1
         else if even f then f else f + 1)"

definition py_round :: "real \<Rightarrow> nat \<Rightarrow> real" where
  "py_round x ndigits = of_int (round_half_even (x * 10 ^ ndigits)) / 10 ^ ndigits"

definition exact_arith :: "real arith" where
  "exact_arith =
     \<lparr>fadd = (+), fsub = (-), fmul = (*), fdiv = (/), flt = (<),
      is_zero = (\<lambda>v. v = 0), float_of_int = real_of_int, fsum = foldl (+) 0,
      int_truediv = (\<lambda>a b. real_of_int a / real_of_int b), fround = py_round\<rparr>"

section \<open>Arithmetic engine: \<open>app/operations/calc_utils.py\<close>\<close>

text \<open>
  Every \<open>raise ValueError(...)\<close> of the engine and of the statistics module is one
  constructor of \<open>error\<close>:
  \<^item> \<open>InvalidInput\<close>: "Inputs must be a list with at least two numbers.";
  \<^item> \<open>UnsupportedOperation t\<close>: "Unsupported calculation type: t";
  \<^item> \<open>DivisionByZero\<close>: "Cannot divide by zero.";
  \<^item> \<open>InvalidPage\<close>: "Page number must be >= 1";
  \<^item> \<open>InvalidPageSize\<close>: "Page size must be between 1 and 100".
  \<open>StorageError\<close> is the exception of the database driver for an \<open>OFFSET\<close> that is
  not a 64-bit integer; it is no \<open>ValueError\<close>.
\<close>

datatype error =
    InvalidInput
  | UnsupportedOperation string
  | DivisionByZero
  | InvalidPage
  | InvalidPageSize
  | StorageError

text \<open>
  \<open>str.lower()\<close> on the ASCII letters; every other character is left as it is.
\<close>

definition lower_char :: "char \<Rightarrow> char" where
  "lower_char c =
     (case map_of (zip ''ABCDEFGHIJKLMNOPQRSTUVWXYZ'' ''abcdefghijklmnopqrstuvwxyz'') c of
        None \<Rightarrow> c
      | Some d \<Rightarrow> d)"

definition lower :: "string \<Rightarrow> string" where
  "lower s = map lower_char s"

text \<open>
  The division loop: \<open>for v in inputs[1:]: if v == 0: raise ...; result /= v\<close>.
\<close>

fun divide_loop :: "'f arith \<Rightarrow> 'f \<Rightarrow> 'f list \<Rightarrow> error + 'f" where
  "divide_loop A acc [] = Inr acc"
| "divide_loop A acc (v # vs) =
     (if is_zero A v then Inl DivisionByZero else divide_loop A (fdiv A acc v) vs)"

text \<open>
  \<open>compute_result\<close>. The subtraction and multiplication loops are left folds as
  written; the multiplication starts from the integer 1. \<open>hd\<close> and \<open>tl\<close> are only
  reached behind the length check, where \<open>inputs[0]\<close> and \<open>inputs[1:]\<close> exist.
\<close>

definition compute_result :: "'f arith \<Rightarrow> string \<Rightarrow> 'f list \<Rightarrow> error + 'f" where
  "compute_result A calc_type inputs =
     (if length inputs < 2 then Inl InvalidInput
      else let t = lower calc_type in
        if t = ''addition'' then Inr (fsum A inputs)
        else if t = ''subtraction'' then Inr (foldl (fsub A) (hd inputs) (tl inputs))
        else if t = ''multiplication'' then Inr (foldl (fmul A) (float_of_int A 1) inputs)
        else if t = ''division'' then divide_loop A (hd inputs) (tl inputs)
        else Inl (UnsupportedOperation calc_type))"

definition recognized_tags :: "string list" where
  "recognized_tags = [''addition'', ''subtraction'', ''multiplication'', ''division'']"

section \<open>Calculation records and the storage collaborator\<close>

text \<open>
  A row of the \<open>calculations\<close> table. UUIDs are kept as natural numbers and timestamps
  as seconds since the epoch; the field \<open>type\<close> of the source is \<open>calc_type\<close> here and
  the field \<open>id\<close> is \<open>calc_id\<close>. The table is the list of its rows in storage order.
\<close>

type_synonym uuid = nat
type_synonym datetime = int

record 'f calculation =
  calc_id :: uuid
  user_id :: uuid
  calc_type :: string
  inputs :: "'f list"
  result :: 'f
  created_at :: datetime
  updated_at :: datetime

type_synonym 'f db = "'f calculation list"

text \<open>\<open>query.order_by(desc(Calculation.created_at))\<close>: newest first, ties in storage order.\<close>

definition order_by_created_desc :: "'f calculation list \<Rightarrow> 'f calculation list" where
  "order_by_created_desc cs = sort_key (\<lambda>c. - created_at c) cs"

text \<open>
  The largest integer the storage takes as \<open>OFFSET\<close>: beyond it the driver raises
  instead of running the query.
\<close>

definition sql_int_max :: int where
  "sql_int_max = 2 ^ 63 - 1"

text \<open>\<open>db.commit()\<close> after the attributes of the first row matching \<open>P\<close> were assigned.\<close>

fun update_first :: "('a \<Rightarrow> bool) \<Rightarrow> 'a \<Rightarrow> 'a list \<Rightarrow> 'a list" where
  "update_first P y [] = []"
| "update_first P y (x # xs) = (if P x then y # xs else x # update_first P y xs)"

text \<open>\<open>db.delete(calculation); db.commit()\<close> for the first row matching \<open>P\<close>.\<close>

fun delete_first :: "('a \<Rightarrow> bool) \<Rightarrow> 'a list \<Rightarrow> 'a list" where
  "delete_first P [] = []"
| "delete_first P (x # xs) = (if P x then xs else x # delete_first P xs)"

section \<open>Statistics: \<open>app/operations/statistics.py\<close>\<close>

text \<open>
  \<open>d[k] = d.get(k, 0) + 1\<close> on a dictionary kept in insertion order: an existing key
  keeps its place, a new key goes to the end.
\<close>

fun dict_incr :: "('k \<times> nat) list \<Rightarrow> 'k \<Rightarrow> ('k \<times> nat) list" where
  "dict_incr [] k = [(k, 1)]"
| "dict_incr ((k', n) # kvs) k =
     (if k' = k then (k', n + 1) # kvs else (k', n) # dict_incr kvs k)"

text \<open>
  \<open>max(items, key=lambda x: x[1])\<close>: the first item, in iteration order, whose count is
  the largest; \<open>max_item\<close> is the scan with the best item so far.
\<close>

fun max_item :: "('k \<times> nat) \<Rightarrow> ('k \<times> nat) list \<Rightarrow> ('k \<times> nat)" where
  "max_item best [] = best"
| "max_item best (x # xs) = max_item (if snd best < snd x then x else best) xs"

text \<open>
  The builtins \<open>min(values)\<close> and \<open>max(values)\<close> on a non-empty list of floats: a scan
  from the left that keeps the item so far unless the next one is smaller (\<open>item < m\<close>),
  respectively greater (\<open>item > m\<close>, that is \<open>m < item\<close>).
\<close>

definition py_min :: "'f arith \<Rightarrow> 'f list \<Rightarrow> 'f" where
  "py_min A xs = foldl (\<lambda>m x. if flt A x m then x else m) (hd xs) (tl xs)"

definition py_max :: "'f arith \<Rightarrow> 'f list \<Rightarrow> 'f" where
  "py_max A xs = foldl (\<lambda>m x. if flt A m x then x else m) (hd xs) (tl xs)"

text \<open>The dictionaries put into \<open>recent_calculations\<close> and into a history page.\<close>

record 'f recent_row =
  rr_id :: uuid
  rr_type :: string
  rr_inputs :: "'f list"
  rr_result :: 'f
  rr_created_at :: datetime
  rr_updated_at :: datetime

record 'f history_row =
  hr_id :: uuid
  hr_type :: string
  hr_inputs :: "'f list"
  hr_result :: 'f
  hr_user_id :: uuid
  hr_created_at :: datetime
  hr_updated_at :: datetime

definition recent_dict :: "'f calculation \<Rightarrow> 'f recent_row" where
  "recent_dict calc =
     \<lparr>rr_id = calc_id calc, rr_type = calc_type calc, rr_inputs = inputs calc,
      rr_result = result calc, rr_created_at = created_at calc,
      rr_updated_at = updated_at calc\<rparr>"

definition history_dict :: "'f calculation \<Rightarrow> 'f history_row" where
  "history_dict calc =
     \<lparr>hr_id = calc_id calc, hr_type = calc_type calc, hr_inputs = inputs calc,
      hr_result = result calc, hr_user_id = user_id calc,
      hr_created_at = created_at calc, hr_updated_at = updated_at calc\<rparr>"

text \<open>
  \<open>func.date(created_at)\<close>: the calendar day of a timestamp, as the number of the day.
\<close>

definition date_of :: "datetime \<Rightarrow> int" where
  "date_of t = t div 86400"

text \<open>
  \<open>get_calculations_by_day\<close>; \<open>now\<close> is the value of \<open>datetime.now()\<close> at the call.
\<close>

definition get_calculations_by_day ::
  "datetime \<Rightarrow> 'f db \<Rightarrow> uuid \<Rightarrow> int \<Rightarrow> (int \<times> nat) list" where
  "get_calculations_by_day now d uid days =
     (let end_date = now;
          start_date = end_date - days * 86400;
          rows = filter (\<lambda>c. user_id c = uid \<and> start_date \<le> created_at c
                               \<and> created_at c \<le> end_date) d
      in foldl (\<lambda>acc c. dict_incr acc (date_of (created_at c))) [] rows)"

record 'f user_statistics =
  us_total_calculations :: nat
  us_operations_breakdown :: "(string \<times> nat) list"
  us_average_inputs_count :: "'f option"
  us_average_result :: "'f option"
  us_most_used_operation :: "string option"
  us_recent_calculations :: "'f recent_row list"
  us_calculations_by_day :: "(int \<times> nat) list"

text \<open>One pass of the loop \<open>for calc in calculations\<close> of \<open>calculate_user_statistics\<close>.\<close>

definition stats_step ::
  "'f arith \<Rightarrow> (string \<times> nat) list \<times> 'f \<times> nat \<Rightarrow> 'f calculation
     \<Rightarrow> (string \<times> nat) list \<times> 'f \<times> nat" where
  "stats_step A acc calc =
     (case acc of (operations_breakdown, result_sum, inputs_count_sum) \<Rightarrow>
        (dict_incr operations_breakdown (lower (calc_type calc)),
         fadd A result_sum (result calc),
         inputs_count_sum + length (inputs calc)))"

definition calculate_user_statistics ::
  "'f arith \<Rightarrow> datetime \<Rightarrow> 'f db \<Rightarrow> uuid \<Rightarrow> 'f user_statistics" where
  "calculate_user_statistics A now d uid =
     (let calculations = filter (\<lambda>c. user_id c = uid) d;
          total_calculations = length calculations
      in if total_calculations = 0 then
           \<lparr>us_total_calculations = 0, us_operations_breakdown = [],
            us_average_inputs_count = None, us_average_result = None,
            us_most_used_operation = None, us_recent_calculations = [],
            us_calculations_by_day = []\<rparr>
         else
           (case foldl (stats_step A) ([], float_of_int A 0, 0) calculations of
              (operations_breakdown, result_sum, inputs_count_sum) \<Rightarrow>
                \<lparr>us_total_calculations = total_calculations,
                 us_operations_breakdown = operations_breakdown,
                 us_average_inputs_count =
                   Some (fround A
                     (int_truediv A (int inputs_count_sum) (int total_calculations)) 2),
                 us_average_result =
                   Some (fround A
                     (fdiv A result_sum (float_of_int A (int total_calculations))) 2),
                 us_most_used_operation =
                   (case operations_breakdown of
                      [] \<Rightarrow> None
                    | item # items \<Rightarrow> Some (fst (max_item item items))),
                 us_recent_calculations =
                   map recent_dict
                     (take 10 (order_by_created_desc (filter (\<lambda>c. user_id c = uid) d))),
                 us_calculations_by_day = get_calculations_by_day now d uid 30\<rparr>))"

record 'f history_page =
  hp_calculations :: "'f history_row list"
  hp_total :: int
  hp_page :: int
  hp_page_size :: int
  hp_total_pages :: int

text \<open>
  The query of \<open>get_paginated_history\<close>: the owner's rows, and only those of the
  filtered operation when \<open>operation_filter\<close> is neither \<open>None\<close> nor the empty string.
\<close>

definition history_query :: "'f db \<Rightarrow> uuid \<Rightarrow> string option \<Rightarrow> 'f calculation list" where
  "history_query d uid operation_filter =
     (let query = filter (\<lambda>c. user_id c = uid) d
      in case operation_filter of
           None \<Rightarrow> query
         | Some f \<Rightarrow>
             if f = [] then query
             else filter (\<lambda>c. lower (calc_type c) = lower f) query)"

text \<open>
  \<open>get_paginated_history\<close>. Python integers are unbounded, so \<open>(page - 1) * page_size\<close>
  is computed exactly; the query with \<open>.offset(...)\<close> raises where that number is
  beyond \<open>sql_int_max\<close>.
\<close>

definition get_paginated_history ::
  "'f db \<Rightarrow> uuid \<Rightarrow> int \<Rightarrow> int \<Rightarrow> string option \<Rightarrow> error + 'f history_page" where
  "get_paginated_history d uid page page_size operation_filter =
     (if page < 1 then Inl InvalidPage
      else if page_size < 1 \<or> 100 < page_size then Inl InvalidPageSize
      else
        let query = history_query d uid operation_filter;
            total = int (length query);
            total_pages = (if 0 < total then (total + page_size - 1) div page_size else 0);
            offset = (page - 1) * page_size
        in if sql_int_max < offset then Inl StorageError
           else
             let calculations =
                   take (nat page_size) (drop (nat offset) (order_by_created_desc query))
             in Inr \<lparr>hp_calculations = map history_dict calculations, hp_total = total,
                     hp_page = page, hp_page_size = page_size,
                     hp_total_pages = total_pages\<rparr>)"

record 'f operation_statistics =
  os_count :: nat
  os_average_inputs_count :: "'f option"
  os_average_result :: "'f option"
  os_min_result :: "'f option"
  os_max_result :: "'f option"

definition operation_query :: "'f db \<Rightarrow> uuid \<Rightarrow> string \<Rightarrow> 'f calculation list" where
  "operation_query d uid operation =
     filter (\<lambda>c. user_id c = uid \<and> lower (calc_type c) = lower operation) d"

text \<open>
  \<open>get_operation_statistics\<close>. \<open>sum(inputs_counts)\<close> adds integers and is exact;
  \<open>sum(result_values)\<close> adds floats; the first mean divides two integers, the second a
  float by an integer.
\<close>

definition get_operation_statistics ::
  "'f arith \<Rightarrow> 'f db \<Rightarrow> uuid \<Rightarrow> string \<Rightarrow> 'f operation_statistics" where
  "get_operation_statistics A d uid operation =
     (let calculations = operation_query d uid operation
      in if calculations = [] then
           \<lparr>os_count = 0, os_average_inputs_count = None, os_average_result = None,
            os_min_result = None, os_max_result = None\<rparr>
         else
           let result_values = map result calculations;
               inputs_counts = map (\<lambda>c. length (inputs c)) calculations
           in \<lparr>os_count = length calculations,
               os_average_inputs_count =
                 Some (fround A
                   (int_truediv A (int (sum_list inputs_counts)) (int (length calculations)))
                   2),
               os_average_result =
                 Some (fround A
                   (fdiv A (fsum A result_values)
                      (float_of_int A (int (length calculations)))) 2),
               os_min_result = Some (fround A (py_min A result_values) 2),
               os_max_result = Some (fround A (py_max A result_values) 2)\<rparr>)"

section \<open>Request handlers: \<open>app/main.py\<close>\<close>

text \<open>
  The \<open>HTTPException\<close>s of the calculation routes, and the answer of the framework to an
  exception no handler catches:
  \<^item> \<open>InvalidIdFormat\<close>: status 400, "Invalid calculation id format.";
  \<^item> \<open>NotFound\<close>: status 404, "Calculation not found.";
  \<^item> \<open>BadRequest e\<close>: status 400 with \<open>detail = str(e)\<close> of a caught \<open>ValueError\<close>;
  \<^item> \<open>InternalServerError\<close>: status 500.
\<close>

datatype http_error =
    InvalidIdFormat
  | NotFound
  | BadRequest error
  | InternalServerError

text \<open>
  The request body \<open>CalculationUpdate\<close> of \<open>app/schemas/calculation.py\<close>, with what its
  field declarations and its validator accept: \<open>type\<close> is absent or one of the four
  literals, \<open>inputs\<close> is absent or has at least two items, and a division body has no zero
  among \<open>inputs[1:]\<close>.
\<close>

record 'f calculation_update =
  upd_type :: "string option"
  upd_inputs :: "'f list option"

definition CalculationUpdate_valid :: "'f arith \<Rightarrow> 'f calculation_update \<Rightarrow> bool" where
  "CalculationUpdate_valid A u =
     ((case upd_type u of None \<Rightarrow> True | Some t \<Rightarrow> t \<in> set recognized_tags)
      \<and> (case upd_inputs u of
            None \<Rightarrow> True
          | Some v \<Rightarrow> 2 \<le> length v
              \<and> \<not> (upd_type u = Some ''division'' \<and> list_ex (is_zero A) (tl v))))"

text \<open>
  Modelled from the spec: \<open>Calculation.get_result\<close>, a method of the model class that
  \<open>app/main.py\<close> imports from \<open>app.models.calculation\<close> and that is not among the
  sources. The spec has the result "derived deterministically from (operation tag, inputs)
  via the Arithmetic Engine".
\<close>

definition get_result :: "'f arith \<Rightarrow> 'f calculation \<Rightarrow> error + 'f" where
  "get_result A calc = compute_result A (calc_type calc) (inputs calc)"

text \<open>
  The row lookup shared by the single-record routes:
  \<open>db.query(Calculation).filter(Calculation.id == calc_uuid,
  Calculation.user_id == current_user.id).first()\<close>.
\<close>

definition owned_by :: "uuid \<Rightarrow> uuid \<Rightarrow> 'f calculation \<Rightarrow> bool" where
  "owned_by calc_uuid current_user c \<longleftrightarrow> calc_id c = calc_uuid \<and> user_id c = current_user"

text \<open>
  In every route \<open>UUID\<close> is the parser of the path parameter (\<open>None\<close> where
  \<open>UUID(calc_id)\<close> raises \<open>ValueError\<close>).
\<close>

definition get_calculation ::
  "(string \<Rightarrow> uuid option) \<Rightarrow> 'f db \<Rightarrow> string \<Rightarrow> uuid \<Rightarrow> http_error + 'f calculation" where
  "get_calculation UUID d cid current_user =
     (case UUID cid of
        None \<Rightarrow> Inl InvalidIdFormat
      | Some calc_uuid \<Rightarrow>
          (case find (owned_by calc_uuid current_user) d of
             None \<Rightarrow> Inl NotFound
           | Some calculation \<Rightarrow> Inr calculation))"

text \<open>
  \<open>update_calculation\<close> of \<open>app/main.py\<close>. \<open>now\<close> is \<open>datetime.utcnow()\<close>. The
  route does not catch what \<open>get_result\<close> raises: the request then ends with status 500
  before \<open>db.commit()\<close>.
\<close>

definition update_calculation ::
  "(string \<Rightarrow> uuid option) \<Rightarrow> ('f calculation \<Rightarrow> error + 'f) \<Rightarrow> datetime \<Rightarrow> 'f db
     \<Rightarrow> string \<Rightarrow> 'f calculation_update \<Rightarrow> uuid
     \<Rightarrow> 'f db \<times> (http_error + 'f calculation)" where
  "update_calculation UUID get_res now d cid calculation_update current_user =
     (case UUID cid of
        None \<Rightarrow> (d, Inl InvalidIdFormat)
      | Some calc_uuid \<Rightarrow>
          (case find (owned_by calc_uuid current_user) d of
             None \<Rightarrow> (d, Inl NotFound)
           | Some calculation \<Rightarrow>
               (case upd_inputs calculation_update of
                  None \<Rightarrow>
                    (let c' = calculation\<lparr>updated_at := now\<rparr>
                     in (update_first (owned_by calc_uuid current_user) c' d, Inr c'))
                | Some new_inputs \<Rightarrow>
                    (case get_res (calculation\<lparr>inputs := new_inputs\<rparr>) of
                       Inl e \<Rightarrow> (d, Inl InternalServerError)
                     | Inr r \<Rightarrow>
                         (let c' = calculation\<lparr>inputs := new_inputs, result := r,
                                               updated_at := now\<rparr>
                          in (update_first (owned_by calc_uuid current_user) c' d, Inr c'))))))"

definition delete_calculation ::
  "(string \<Rightarrow> uuid option) \<Rightarrow> 'f db \<Rightarrow> string \<Rightarrow> uuid \<Rightarrow> 'f db \<times> (http_error + unit)" where
  "delete_calculation UUID d cid current_user =
     (case UUID cid of
        None \<Rightarrow> (d, Inl InvalidIdFormat)
      | Some calc_uuid \<Rightarrow>
          (case find (owned_by calc_uuid current_user) d of
             None \<Rightarrow> (d, Inl NotFound)
           | Some calculation \<Rightarrow>
               (delete_first (owned_by calc_uuid current_user) d, Inr ())))"

section \<open>The updated PUT route: \<open>app/models/calculation.py\<close>\<close>

text \<open>
  The file holds a second \<open>update_calculation\<close> ("UPDATED PUT ROUTE"). \<open>a or b\<close> takes
  \<open>b\<close> when \<open>a\<close> is \<open>None\<close> or empty.
\<close>

definition or_else :: "'a list option \<Rightarrow> 'a list \<Rightarrow> 'a list" where
  "or_else a b = (case a of None \<Rightarrow> b | Some x \<Rightarrow> if x = [] then b else x)"

definition update_calculation_patched ::
  "'f arith \<Rightarrow> (string \<Rightarrow> uuid option) \<Rightarrow> datetime \<Rightarrow> 'f db \<Rightarrow> string
     \<Rightarrow> 'f calculation_update \<Rightarrow> uuid \<Rightarrow> 'f db \<times> (http_error + 'f calculation)" where
  "update_calculation_patched A UUID now d cid calculation_update current_user =
     (case UUID cid of
        None \<Rightarrow> (d, Inl InvalidIdFormat)
      | Some calc_uuid \<Rightarrow>
          (case find (owned_by calc_uuid current_user) d of
             None \<Rightarrow> (d, Inl NotFound)
           | Some calc \<Rightarrow>
               (let new_type = or_else (upd_type calculation_update) (calc_type calc);
                    new_inputs = or_else (upd_inputs calculation_update) (inputs calc)
                in case compute_result A new_type new_inputs of
                     Inl e \<Rightarrow> (d, Inl (BadRequest e))
                   | Inr new_result \<Rightarrow>
                       (let c' = calc\<lparr>calc_type := new_type, inputs := new_inputs,
                                       result := new_result, updated_at := now\<rparr>
                        in (update_first (owned_by calc_uuid current_user) c' d, Inr c')))))"

section \<open>Example data\<close>

text \<open>A one-row table, its owner 7, and a parser that knows the row's id.\<close>

definition example_UUID :: "string \<Rightarrow> uuid option" where
  "example_UUID s = (if s = ''c1'' then Some 1 else None)"

definition example_calc :: "real calculation" where
  "example_calc =
     \<lparr>calc_id = 1, user_id = 7, calc_type = ''addition'', inputs = [1, 2], result = 3,
      created_at = 100, updated_at = 100\<rparr>"

definition type_only_update :: "real calculation_update" where
  "type_only_update = \<lparr>upd_type = Some ''multiplication'', upd_inputs = None\<rparr>"

text \<open>
  A table of 25 rows of owner 7, created at the seconds 0 to 24, and a table of five rows
  with tags in mixed case, four of owner 7 and one of owner 9.
\<close>

definition example_history :: "real db" where
  "example_history =
     map (\<lambda>i. \<lparr>calc_id = i, user_id = 7, calc_type = ''addition'', inputs = [1, 2],
                result = 3, created_at = int i, updated_at = int i\<rparr>) [0..<25]"

definition example_db :: "real db" where
  "example_db =
     [\<lparr>calc_id = 1, user_id = 7, calc_type = ''addition'', inputs = [1, 2], result = 3,
       created_at = 100, updated_at = 100\<rparr>,
      \<lparr>calc_id = 2, user_id = 7, calc_type = ''Addition'', inputs = [1, 2, 3], result = 6,
       created_at = 200, updated_at = 200\<rparr>,
      \<lparr>calc_id = 3, user_id = 7, calc_type = ''multiplication'', inputs = [2, 3, 4],
       result = 24, created_at = 300, updated_at = 300\<rparr>,
      \<lparr>calc_id = 4, user_id = 9, calc_type = ''addition'', inputs = [40, 2], result = 42,
       created_at = 400, updated_at = 400\<rparr>,
      \<lparr>calc_id = 5, user_id = 7, calc_type = ''ADDITION'', inputs = [1 / 2, 1 / 2],
       result = 1, created_at = 500, updated_at = 500\<rparr>]"

section \<open>Properties of the arithmetic engine\<close>

lemma divide_loop_nonzero:
  "\<forall>v \<in> set vs. \<not> is_zero A v \<Longrightarrow> divide_loop A a vs = Inr (foldl (fdiv A) a vs)"
  by (induction vs arbitrary: a) auto

lemma divide_loop_zero:
  "\<exists>v \<in> set vs. is_zero A v \<Longrightarrow> divide_loop A a vs = Inl DivisionByZero"
  by (induction vs arbitrary: a) auto

lemma divide_loop_fails_iff:
  "divide_loop A a vs = Inl DivisionByZero \<longleftrightarrow> (\<exists>v \<in> set vs. is_zero A v)"
proof
  assume "divide_loop A a vs = Inl DivisionByZero"
  then show "\<exists>v \<in> set vs. is_zero A v"
    using divide_loop_nonzero [of vs A a] by (cases "\<exists>v \<in> set vs. is_zero A v") simp_all
next
  assume "\<exists>v \<in> set vs. is_zero A v"
  then show "divide_loop A a vs = Inl DivisionByZero" by (rule divide_loop_zero)
qed

lemma hd_tl_nth_drop: "2 \<le> length xs \<Longrightarrow> hd xs = xs ! 0 \<and> tl xs = drop 1 xs"
  by (cases xs) (simp_all add: drop_Suc)

lemma in_drop1_iff:
  "(\<exists>v \<in> set (drop 1 xs). P v) \<longleftrightarrow> (\<exists>i. 1 \<le> i \<and> i < length xs \<and> P (xs ! i))"
proof
  assume "\<exists>v \<in> set (drop 1 xs). P v"
  then obtain j where j: "j < length (drop 1 xs)" "P (drop 1 xs ! j)"
    by (auto simp: in_set_conv_nth)
  then have "1 \<le> Suc j \<and> Suc j < length xs \<and> P (xs ! Suc j)"
    by (cases xs) auto
  then show "\<exists>i. 1 \<le> i \<and> i < length xs \<and> P (xs ! i)" by blast
next
  assume "\<exists>i. 1 \<le> i \<and> i < length xs \<and> P (xs ! i)"
  then obtain i where i: "1 \<le> i" "i < length xs" "P (xs ! i)" by blast
  then have "P (drop 1 xs ! (i - 1))" "i - 1 < length (drop 1 xs)"
    by auto
  then show "\<exists>v \<in> set (drop 1 xs). P v"
    by (metis nth_mem)
qed

text \<open>
  Claim C1. For an input list of at least two numbers and a tag that is, in lower case,
  one of the four operations, \<open>compute_result\<close> returns, in the arithmetic of the
  machine: what \<open>sum\<close> makes of the inputs for addition; the first input minus each later
  one, from the left, for subtraction; 1 times each input, from the left, for
  multiplication; the first input divided by each later one, from the left, for division
  without a zero divisor.
\<close>

theorem C1_compute_semantics:
  assumes "2 \<le> length xs"
  shows "(lower t = ''addition'' \<longrightarrow> compute_result A t xs = Inr (fsum A xs))
       \<and> (lower t = ''subtraction'' \<longrightarrow>
            compute_result A t xs = Inr (foldl (fsub A) (xs ! 0) (drop 1 xs)))
       \<and> (lower t = ''multiplication'' \<longrightarrow>
            compute_result A t xs = Inr (foldl (fmul A) (float_of_int A 1) xs))
       \<and> (lower t = ''division'' \<and> (\<forall>v \<in> set (drop 1 xs). \<not> is_zero A v) \<longrightarrow>
            compute_result A t xs = Inr (foldl (fdiv A) (xs ! 0) (drop 1 xs)))"
proof -
  have len: "\<not> length xs < 2" using assms by simp
  have ht: "hd xs = xs ! 0" "tl xs = drop 1 xs"
    using hd_tl_nth_drop [OF assms] by simp_all
  have add: "lower t = ''addition'' \<Longrightarrow> compute_result A t xs = Inr (fsum A xs)"
    using len by (simp add: compute_result_def)
  have sub: "lower t = ''subtraction'' \<Longrightarrow>
      compute_result A t xs = Inr (foldl (fsub A) (xs ! 0) (drop 1 xs))"
    using len by (simp add: compute_result_def ht)
  have mul: "lower t = ''multiplication'' \<Longrightarrow>
      compute_result A t xs = Inr (foldl (fmul A) (float_of_int A 1) xs)"
    using len by (simp add: compute_result_def)
  have dv: "lower t = ''division'' \<Longrightarrow> \<forall>v \<in> set (drop 1 xs). \<not> is_zero A v \<Longrightarrow>
      compute_result A t xs = Inr (foldl (fdiv A) (xs ! 0) (drop 1 xs))"
    using len by (simp add: compute_result_def ht divide_loop_nonzero)
  show ?thesis
    using add sub mul dv by blast
qed

text \<open>The four examples of the claim, and a tag in mixed case.\<close>

theorem C1_compute_examples:
  "compute_result exact_arith ''addition'' [1, 2, 3] = Inr 6
 \<and> compute_result exact_arith ''subtraction'' [10, 2, 3] = Inr 5
 \<and> compute_result exact_arith ''multiplication'' [2, 3, 4] = Inr 24
 \<and> compute_result exact_arith ''division'' [100, 2, 5] = Inr 10
 \<and> compute_result exact_arith ''Division'' [100, 2, 5] = Inr 10"
  using C1_compute_semantics [of "[1, 2, 3]" "''addition''" exact_arith]
    C1_compute_semantics [of "[10, 2, 3]" "''subtraction''" exact_arith]
    C1_compute_semantics [of "[2, 3, 4]" "''multiplication''" exact_arith]
    C1_compute_semantics [of "[100, 2, 5]" "''division''" exact_arith]
    C1_compute_semantics [of "[100, 2, 5]" "''Division''" exact_arith]
  by (simp add: lower_def lower_char_def exact_arith_def)

text \<open>
  Claim C3. For an input list of at least two numbers and the division tag,
  \<open>compute_result\<close> fails with \<open>DivisionByZero\<close> exactly when some input at an index
  of at least 1 is zero; otherwise it returns the successive quotient, also when the first
  input is zero.
\<close>

theorem C3_division_by_zero:
  assumes "2 \<le> length xs" and "lower t = ''division''"
  shows "(compute_result A t xs = Inl DivisionByZero
            \<longleftrightarrow> (\<exists>i. 1 \<le> i \<and> i < length xs \<and> is_zero A (xs ! i)))
       \<and> ((\<forall>i. 1 \<le> i \<and> i < length xs \<longrightarrow> \<not> is_zero A (xs ! i)) \<longrightarrow>
            compute_result A t xs = Inr (foldl (fdiv A) (xs ! 0) (drop 1 xs)))"
proof -
  have ht: "hd xs = xs ! 0" "tl xs = drop 1 xs"
    using hd_tl_nth_drop [OF assms(1)] by simp_all
  have cr: "compute_result A t xs = divide_loop A (xs ! 0) (drop 1 xs)"
    using assms by (simp add: compute_result_def ht)
  have "compute_result A t xs = Inl DivisionByZero
      \<longleftrightarrow> (\<exists>v \<in> set (drop 1 xs). is_zero A v)"
    by (simp only: cr divide_loop_fails_iff)
  moreover have "\<not> (\<exists>v \<in> set (drop 1 xs). is_zero A v) \<Longrightarrow>
      compute_result A t xs = Inr (foldl (fdiv A) (xs ! 0) (drop 1 xs))"
    by (simp add: cr divide_loop_nonzero)
  ultimately show ?thesis
    by (simp only: in_drop1_iff) blast
qed

theorem C3_division_by_zero_witness:
  "compute_result exact_arith ''division'' [10, 0] = Inl DivisionByZero
 \<and> compute_result exact_arith ''division'' [0, 4, 2] = Inr 0
 \<and> compute_result exact_arith ''DIVISION'' [8, 2, 0] = Inl DivisionByZero"
proof -
  have a: "\<exists>i. 1 \<le> i \<and> i < length [10, 0 :: real]
      \<and> is_zero exact_arith ([10, 0 :: real] ! i)"
    by (rule exI [of _ 1]) (simp add: exact_arith_def)
  have b: "\<forall>i. 1 \<le> i \<and> i < length [0, 4, 2 :: real]
      \<longrightarrow> \<not> is_zero exact_arith ([0, 4, 2 :: real] ! i)"
    by (simp add: nth_Cons exact_arith_def split: nat.split)
  have c: "\<exists>i. 1 \<le> i \<and> i < length [8, 2, 0 :: real]
      \<and> is_zero exact_arith ([8, 2, 0 :: real] ! i)"
    by (rule exI [of _ 2]) (simp add: exact_arith_def)
  have q: "fdiv exact_arith = (/)"
    by (simp add: exact_arith_def)
  show ?thesis
    using a b c
      C3_division_by_zero [of "[10, 0]" "''division''" exact_arith]
      C3_division_by_zero [of "[0, 4, 2]" "''division''" exact_arith]
      C3_division_by_zero [of "[8, 2, 0]" "''DIVISION''" exact_arith]
    by (simp add: lower_def lower_char_def q)
qed

text \<open>
  Claim C4 says that an unrecognized tag always gives \<open>UnsupportedOperation\<close>. With
  fewer than two inputs the length check answers first: the tag \<open>bogus\<close> with the one
  input 5 gives \<open>InvalidInput\<close>.
\<close>

theorem C4_counterexample:
  "lower ''bogus'' \<notin> set recognized_tags
 \<and> compute_result exact_arith ''bogus'' [5] = Inl InvalidInput
 \<and> compute_result exact_arith ''bogus'' [5] \<noteq> Inl (UnsupportedOperation ''bogus'')"
  by (simp add: compute_result_def recognized_tags_def lower_def lower_char_def)

text \<open>
  Claim C4, amended. \<open>compute_result\<close> fails with \<open>InvalidInput\<close> whenever there are
  fewer than two inputs, and with \<open>UnsupportedOperation\<close> whenever there are at least
  two inputs and the tag, in lower case, is none of the four recognized tags.
\<close>

theorem C4_validation_errors:
  "(length xs < 2 \<longrightarrow> compute_result A t xs = Inl InvalidInput)
 \<and> (2 \<le> length xs \<and> lower t \<notin> set recognized_tags \<longrightarrow>
      compute_result A t xs = Inl (UnsupportedOperation t))"
  by (simp add: compute_result_def recognized_tags_def)

theorem C4_validation_errors_witness:
  "compute_result exact_arith ''addition'' [5] = Inl InvalidInput
 \<and> compute_result exact_arith ''bogus'' [1, 2] = Inl (UnsupportedOperation ''bogus'')"
  using C4_validation_errors [of "[5]" exact_arith "''addition''"]
    C4_validation_errors [of "[1, 2]" exact_arith "''bogus''"]
  by (simp add: recognized_tags_def lower_def lower_char_def)

text \<open>
  Claim C10. For every tag, recognized or not, fewer than two inputs give
  \<open>InvalidInput\<close> and never \<open>UnsupportedOperation\<close>; an \<open>UnsupportedOperation\<close>
  failure only occurs for at least two inputs.
\<close>

theorem C10_length_check_first:
  "(length xs < 2 \<longrightarrow>
      compute_result A t xs = Inl InvalidInput
    \<and> compute_result A t xs \<noteq> Inl (UnsupportedOperation s))
 \<and> (compute_result A t xs = Inl (UnsupportedOperation s) \<longrightarrow> 2 \<le> length xs)"
  by (simp add: compute_result_def)

theorem C10_length_check_first_witness:
  "compute_result exact_arith ''bogus'' [] = Inl InvalidInput
 \<and> compute_result exact_arith ''bogus'' [5] = Inl InvalidInput
 \<and> compute_result exact_arith ''bogus'' [5] \<noteq> Inl (UnsupportedOperation ''bogus'')
 \<and> compute_result exact_arith ''bogus'' [1, 2] = Inl (UnsupportedOperation ''bogus'')
 \<and> 2 \<le> length [1, 2 :: real]"
proof -
  have u: "compute_result exact_arith ''bogus'' [1, 2] = Inl (UnsupportedOperation ''bogus'')"
    by (simp add: compute_result_def lower_def lower_char_def)
  show ?thesis
    using u C10_length_check_first [of "[]" exact_arith "''bogus''" "''bogus''"]
      C10_length_check_first [of "[5]" exact_arith "''bogus''" "''bogus''"]
      C10_length_check_first [of "[1, 2]" exact_arith "''bogus''" "''bogus''"]
    by simp
qed

section \<open>Properties of the update routes\<close>

lemma update_calculation_ignores_type:
  "update_calculation UUID g now d cid u cu
     = update_calculation UUID g now d cid (u\<lparr>upd_type := t\<rparr>) cu"
  by (simp add: update_calculation_def split: option.splits)

lemma update_calculation_new_inputs:
  assumes "UUID cid = Some k" and "find (owned_by k cu) d = Some c"
    and "upd_inputs u = Some v" and "compute_result A (calc_type c) v = Inr r"
  shows "snd (update_calculation UUID (get_result A) now d cid u cu)
           = Inr (c\<lparr>inputs := v, result := r, updated_at := now\<rparr>)"
  using assms by (simp add: update_calculation_def get_result_def Let_def)

lemma update_calculation_patched_recomputes:
  assumes "update_calculation_patched A UUID now d cid u cu = (d', Inr c')"
  shows "compute_result A (calc_type c') (inputs c') = Inr (result c') \<and> updated_at c' = now"
  using assms
  by (auto simp: update_calculation_patched_def Let_def split: option.splits sum.splits)

lemma update_calculation_patched_type_only:
  assumes "UUID cid = Some k" and "find (owned_by k cu) d = Some c"
    and "upd_type u = Some t" and "t \<noteq> []" and "upd_inputs u = None"
    and "compute_result A t (inputs c) = Inr r"
  shows "snd (update_calculation_patched A UUID now d cid u cu)
           = Inr (c\<lparr>calc_type := t, inputs := inputs c, result := r, updated_at := now\<rparr>)"
  using assms by (simp add: update_calculation_patched_def or_else_def Let_def)

text \<open>
  Claim C2. An update that supplies only a new operation tag should leave the stored
  result equal to \<open>compute_result\<close> of the new tag and the existing inputs. The route of
  \<open>app/main.py\<close> accepts the body, keeps the tag \<open>addition\<close> and the result 3 and only
  refreshes \<open>updated_at\<close>, where \<open>compute_result\<close> of \<open>multiplication\<close> over the
  inputs is 2; the updated route stores the new tag and the result 2.
\<close>

theorem C2_type_only_update_keeps_result:
  "CalculationUpdate_valid exact_arith type_only_update
 \<and> update_calculation example_UUID (get_result exact_arith) 200 [example_calc] ''c1''
       type_only_update 7
     = ([example_calc\<lparr>updated_at := 200\<rparr>], Inr (example_calc\<lparr>updated_at := 200\<rparr>))
 \<and> calc_type (example_calc\<lparr>updated_at := 200\<rparr>) = ''addition''
 \<and> result (example_calc\<lparr>updated_at := 200\<rparr>) = 3
 \<and> compute_result exact_arith ''multiplication''
       (inputs (example_calc\<lparr>updated_at := 200\<rparr>)) = Inr 2
 \<and> snd (update_calculation_patched exact_arith example_UUID 200 [example_calc] ''c1''
       type_only_update 7)
     = Inr (example_calc\<lparr>calc_type := ''multiplication'', result := 2, updated_at := 200\<rparr>)"
  by (simp add: CalculationUpdate_valid_def type_only_update_def recognized_tags_def
      update_calculation_def update_calculation_patched_def or_else_def example_UUID_def
      example_calc_def owned_by_def compute_result_def lower_def lower_char_def Let_def
      exact_arith_def)

section \<open>Properties of the paginated history\<close>

text \<open>
  Claim C6 says that a page size outside 1 to 100 always gives \<open>InvalidPageSize\<close>.
  The page check answers first: page 0 with page size 101 gives \<open>InvalidPage\<close>.
\<close>

theorem C6_counterexample:
  "((101::int) < 1 \<or> (100::int) < 101)
 \<and> get_paginated_history ([] :: real db) 7 0 101 None = Inl InvalidPage
 \<and> get_paginated_history ([] :: real db) 7 0 101 None \<noteq> Inl InvalidPageSize"
  by (simp add: get_paginated_history_def)

text \<open>
  Claim C6, amended. For every owner and filter, \<open>get_paginated_history\<close> fails with
  \<open>InvalidPage\<close> whenever the page is below 1, and fails with \<open>InvalidPageSize\<close>
  whenever the page is at least 1 and the page size is below 1 or above 100. Whenever
  both are within their bounds it fails with neither, and it returns a page unless the
  offset is beyond the integers of the storage.
\<close>

theorem C6_pagination_bounds:
  "(page < 1 \<longrightarrow> get_paginated_history d uid page ps f = Inl InvalidPage)
 \<and> (1 \<le> page \<and> (ps < 1 \<or> 100 < ps) \<longrightarrow>
      get_paginated_history d uid page ps f = Inl InvalidPageSize)
 \<and> (1 \<le> page \<and> 1 \<le> ps \<and> ps \<le> 100 \<longrightarrow>
      get_paginated_history d uid page ps f \<noteq> Inl InvalidPage
    \<and> get_paginated_history d uid page ps f \<noteq> Inl InvalidPageSize
    \<and> ((page - 1) * ps \<le> sql_int_max \<longrightarrow>
         (\<exists>h. get_paginated_history d uid page ps f = Inr h)))"
  by (auto simp: get_paginated_history_def Let_def)

theorem C6_pagination_bounds_witness:
  "get_paginated_history [example_calc] 7 0 10 None = Inl InvalidPage
 \<and> get_paginated_history [example_calc] 7 1 101 None = Inl InvalidPageSize
 \<and> get_paginated_history [example_calc] 7 1 0 (Some ''addition'') = Inl InvalidPageSize
 \<and> get_paginated_history [example_calc] 7 1 100 None \<noteq> Inl InvalidPage
 \<and> get_paginated_history [example_calc] 7 1 100 None \<noteq> Inl InvalidPageSize
 \<and> (\<exists>h. get_paginated_history [example_calc] 7 1 100 None = Inr h)"
  using C6_pagination_bounds [of 0 "[example_calc]" 7 10 None]
    C6_pagination_bounds [of 1 "[example_calc]" 7 101 None]
    C6_pagination_bounds [of 1 "[example_calc]" 7 0 "Some ''addition''"]
    C6_pagination_bounds [of 1 "[example_calc]" 7 100 None]
  by (simp add: sql_int_max_def)

lemma order_by_created_desc_mset: "mset (order_by_created_desc cs) = mset cs"
  by (simp add: order_by_created_desc_def)

lemma order_by_created_desc_length: "length (order_by_created_desc cs) = length cs"
  by (simp add: order_by_created_desc_def)

lemma order_by_created_desc_set: "set (order_by_created_desc cs) = set cs"
  by (simp add: order_by_created_desc_def)

lemma order_by_created_desc_sorted:
  "sorted_wrt (\<lambda>a b. created_at b \<le> created_at a) (order_by_created_desc cs)"
proof -
  have "sorted (map (\<lambda>c. - created_at c) (sort_key (\<lambda>c. - created_at c) cs))"
    by (rule sorted_sort_key)
  then show ?thesis
    by (simp add: order_by_created_desc_def sorted_map)
qed

lemma history_query_filter:
  "history_query d uid f =
     filter (\<lambda>c. user_id c = uid
        \<and> (case f of None \<Rightarrow> True | Some g \<Rightarrow> g = [] \<or> lower (calc_type c) = lower g)) d"
  by (cases f) (auto simp: history_query_def Let_def intro: filter_cong)

lemma total_pages_ceiling:
  fixes total ps :: int
  assumes "1 \<le> ps"
  shows "(total + ps - 1) div ps = \<lceil>real_of_int total / real_of_int ps\<rceil>"
proof -
  define z where "z = (total + ps - 1) div ps"
  define m where "m = (total + ps - 1) mod ps"
  have m: "0 \<le> m" "m < ps"
    using assms by (simp_all add: m_def)
  have eq: "ps * z + m = total + ps - 1"
    by (simp add: z_def m_def)
  have lo: "ps * (z - 1) < total"
    using eq m by (simp add: algebra_simps)
  have hi: "total \<le> ps * z"
    using eq m by (simp add: algebra_simps)
  have pos: "0 < real_of_int ps"
    using assms by simp
  have "real_of_int ps * (real_of_int z - 1) < real_of_int total"
    using lo by (metis of_int_less_iff of_int_mult of_int_diff of_int_1)
  then have a: "real_of_int z - 1 < real_of_int total / real_of_int ps"
    using pos by (simp add: pos_less_divide_eq mult.commute)
  have "real_of_int total \<le> real_of_int ps * real_of_int z"
    using hi by (metis of_int_le_iff of_int_mult)
  then have b: "real_of_int total / real_of_int ps \<le> real_of_int z"
    using pos by (simp add: pos_divide_le_eq mult.commute)
  have "\<lceil>real_of_int total / real_of_int ps\<rceil> = z"
    using a b by (rule ceiling_unique)
  then show ?thesis
    by (simp add: z_def)
qed

text \<open>
  Claim C5 promises a page for every page of at least 1. The offset of page \<open>10 ^ 18\<close>
  with page size 100 is beyond the 64-bit integers of the storage, and the query raises.
\<close>

theorem C5_counterexample:
  "(1::int) \<le> 1000000000000000000 \<and> (1::int) \<le> 100 \<and> (100::int) \<le> 100
 \<and> get_paginated_history example_history 7 1000000000000000000 100 None = Inl StorageError"
  by (simp add: get_paginated_history_def sql_int_max_def Let_def)

text \<open>
  Claim C5, amended. For a page of at least 1, a page size from 1 to 100 and an offset
  \<open>(page - 1) * page_size\<close> within the integers of the storage,
  \<open>get_paginated_history\<close> returns a page: the rows of the owner that match the
  filter, put in descending order of creation time, cut to at most \<open>page_size\<close> rows
  from the offset, each row with its id, type, inputs, result, owner and two timestamps;
  the number of matching rows before the cut; the page and the page size as given; and
  the number of pages, the ceiling of total over page size, 0 when there is no matching
  row.
\<close>

theorem C5_paginated_history:
  assumes "1 \<le> page" and "1 \<le> ps" and "ps \<le> 100" and "(page - 1) * ps \<le> sql_int_max"
  shows "\<exists>h. get_paginated_history d uid page ps f = Inr h
     \<and> (let matching = filter (\<lambda>c. user_id c = uid
               \<and> (case f of None \<Rightarrow> True
                   | Some g \<Rightarrow> g = [] \<or> lower (calc_type c) = lower g)) d;
             ordered = order_by_created_desc matching;
             offset = nat ((page - 1) * ps)
         in mset ordered = mset matching
          \<and> sorted_wrt (\<lambda>a b. created_at b \<le> created_at a) ordered
          \<and> hp_calculations h =
              map (\<lambda>c. \<lparr>hr_id = calc_id c, hr_type = calc_type c, hr_inputs = inputs c,
                         hr_result = result c, hr_user_id = user_id c,
                         hr_created_at = created_at c, hr_updated_at = updated_at c\<rparr>)
                (take (nat ps) (drop offset ordered))
          \<and> length (hp_calculations h) = min (nat ps) (length matching - offset)
          \<and> hp_total h = int (length matching)
          \<and> hp_page h = page
          \<and> hp_page_size h = ps
          \<and> hp_total_pages h =
              (if length matching = 0 then 0
               else \<lceil>real (length matching) / real_of_int ps\<rceil>))"
proof -
  define matching where "matching = history_query d uid f"
  define rows where "rows =
    map (\<lambda>c. \<lparr>hr_id = calc_id c, hr_type = calc_type c, hr_inputs = inputs c,
               hr_result = result c, hr_user_id = user_id c,
               hr_created_at = created_at c, hr_updated_at = updated_at c\<rparr>)
      (take (nat ps) (drop (nat ((page - 1) * ps)) (order_by_created_desc matching)))"
  define h where "h =
    \<lparr>hp_calculations = rows,
     hp_total = int (length matching), hp_page = page, hp_page_size = ps,
     hp_total_pages =
       (if 0 < int (length matching) then (int (length matching) + ps - 1) div ps else 0)\<rparr>"
  have dict: "history_dict = (\<lambda>c. \<lparr>hr_id = calc_id c, hr_type = calc_type c,
      hr_inputs = inputs c, hr_result = result c, hr_user_id = user_id c,
      hr_created_at = created_at c, hr_updated_at = updated_at c\<rparr>)"
    by (rule ext) (simp add: history_dict_def)
  have ret: "get_paginated_history d uid page ps f = Inr h"
    using assms
    by (simp add: get_paginated_history_def Let_def h_def rows_def matching_def dict)
  have pages: "hp_total_pages h =
      (if length matching = 0 then 0 else \<lceil>real (length matching) / real_of_int ps\<rceil>)"
    using total_pages_ceiling [OF assms(2), of "int (length matching)"]
    by (simp add: h_def)
  have len: "length (hp_calculations h)
      = min (nat ps) (length matching - nat ((page - 1) * ps))"
    by (simp add: h_def rows_def order_by_created_desc_length min.commute)
  have "mset (order_by_created_desc matching) = mset matching
      \<and> sorted_wrt (\<lambda>a b. created_at b \<le> created_at a) (order_by_created_desc matching)
      \<and> hp_calculations h = rows
      \<and> hp_total h = int (length matching) \<and> hp_page h = page \<and> hp_page_size h = ps"
    by (simp add: h_def order_by_created_desc_mset order_by_created_desc_sorted)
  then show ?thesis
    using ret pages len
    unfolding matching_def history_query_filter Let_def rows_def
    by blast
qed

lemma example_history_length: "length example_history = 25"
  by (simp add: example_history_def)

text \<open>
  The example of the claim: over 25 rows, page 1 of size 10 has 10 rows, total 25 and 3
  pages; page 3 has the remaining 5 rows.
\<close>

theorem C5_paginated_history_witness:
  "(\<exists>h. get_paginated_history example_history 7 1 10 None = Inr h
      \<and> length (hp_calculations h) = 10 \<and> hp_total h = 25 \<and> hp_total_pages h = 3
      \<and> hp_page h = 1 \<and> hp_page_size h = 10)
 \<and> (\<exists>h. get_paginated_history example_history 7 3 10 None = Inr h
      \<and> length (hp_calculations h) = 5 \<and> hp_total h = 25 \<and> hp_total_pages h = 3)"
proof -
  have m: "filter (\<lambda>c. user_id c = 7 \<and> (case None :: string option of None \<Rightarrow> True
             | Some g \<Rightarrow> g = [] \<or> lower (calc_type c) = lower g)) example_history
           = example_history"
    by (simp add: example_history_def)
  have p1: "(1::int) \<le> 1" and p3: "(1::int) \<le> 3"
    and s1: "(1::int) \<le> 10" and s2: "(10::int) \<le> 100"
    and o1: "((1::int) - 1) * 10 \<le> sql_int_max" and o3: "((3::int) - 1) * 10 \<le> sql_int_max"
    by (simp_all add: sql_int_max_def)
  show ?thesis
    using C5_paginated_history [OF p1 s1 s2 o1, of example_history 7 None]
      C5_paginated_history [OF p3 s1 s2 o3, of example_history 7 None]
    unfolding m Let_def
    by (auto simp: example_history_length)
qed

section \<open>Properties of the summaries\<close>

text \<open>
  Claim C9. For a user without any row, \<open>calculate_user_statistics\<close> returns a value:
  total 0, an empty breakdown, no average input count, no average result, no most used
  operation, no recent calculations and an empty mapping by day.
\<close>

theorem C9_empty_user_summary:
  assumes "\<forall>c \<in> set d. user_id c \<noteq> uid"
  shows "calculate_user_statistics A now d uid =
     \<lparr>us_total_calculations = 0, us_operations_breakdown = [],
      us_average_inputs_count = None, us_average_result = None,
      us_most_used_operation = None, us_recent_calculations = [],
      us_calculations_by_day = []\<rparr>"
proof -
  have "filter (\<lambda>c. user_id c = uid) d = []"
    using assms by (simp add: filter_empty_conv)
  then show ?thesis
    by (simp add: calculate_user_statistics_def)
qed

theorem C9_empty_user_summary_witness:
  "user_id example_calc \<noteq> 8
 \<and> calculate_user_statistics exact_arith 500 [example_calc] 8 =
     \<lparr>us_total_calculations = 0, us_operations_breakdown = [],
      us_average_inputs_count = None, us_average_result = None,
      us_most_used_operation = None, us_recent_calculations = [],
      us_calculations_by_day = []\<rparr>
 \<and> us_total_calculations (calculate_user_statistics exact_arith 500 [] 7) = 0"
proof -
  have h: "\<forall>c \<in> set [example_calc]. user_id c \<noteq> 8"
    by (simp add: example_calc_def)
  have e: "\<forall>c \<in> set ([] :: real db). user_id c \<noteq> 7"
    by simp
  show ?thesis
    using h C9_empty_user_summary [OF h, of exact_arith 500]
      C9_empty_user_summary [OF e, of exact_arith 500]
    by simp
qed

text \<open>
  The summary of owner 7 over the example table, at second 600: four rows, three
  additions and one multiplication, with means that binary64 computes without rounding.
\<close>

lemma calculate_user_statistics_example:
  "calculate_user_statistics exact_arith 600 example_db 7 =
     \<lparr>us_total_calculations = 4,
      us_operations_breakdown = [(''addition'', 3), (''multiplication'', 1)],
      us_average_inputs_count = Some (5 / 2),
      us_average_result = Some (17 / 2),
      us_most_used_operation = Some ''addition'',
      us_recent_calculations =
        [\<lparr>rr_id = 5, rr_type = ''ADDITION'', rr_inputs = [1 / 2, 1 / 2], rr_result = 1,
          rr_created_at = 500, rr_updated_at = 500\<rparr>,
         \<lparr>rr_id = 3, rr_type = ''multiplication'', rr_inputs = [2, 3, 4], rr_result = 24,
          rr_created_at = 300, rr_updated_at = 300\<rparr>,
         \<lparr>rr_id = 2, rr_type = ''Addition'', rr_inputs = [1, 2, 3], rr_result = 6,
          rr_created_at = 200, rr_updated_at = 200\<rparr>,
         \<lparr>rr_id = 1, rr_type = ''addition'', rr_inputs = [1, 2], rr_result = 3,
          rr_created_at = 100, rr_updated_at = 100\<rparr>],
      us_calculations_by_day = [(0, 4)]\<rparr>"
  by (simp add: calculate_user_statistics_def get_calculations_by_day_def stats_step_def
      example_db_def exact_arith_def lower_def lower_char_def order_by_created_desc_def
      recent_dict_def date_of_def py_round_def round_half_even_def Let_def)










section \<open>Ownership isolation\<close>

lemma filter_removeAll_other: "\<not> P c \<Longrightarrow> filter P (removeAll c d) = filter P d"
  by (induction d) auto

lemma find_owned_other:
  assumes "distinct (map calc_id d)" and "c \<in> set d" and "user_id c \<noteq> cu"
  shows "find (owned_by (calc_id c) cu) d = None"
proof -
  have "inj_on calc_id (set d)"
    using assms(1) by (simp add: distinct_map)
  then have "\<And>x. x \<in> set d \<Longrightarrow> calc_id x = calc_id c \<Longrightarrow> x = c"
    using assms(2) by (auto dest: inj_onD)
  then have "\<not> (\<exists>x. x \<in> set d \<and> owned_by (calc_id c) cu x)"
    using assms(3) by (auto simp: owned_by_def)
  then show ?thesis
    by (simp add: find_None_iff)
qed

lemma find_owned_absent:
  assumes "\<forall>x \<in> set d0. calc_id x \<noteq> k"
  shows "find (owned_by k cu) d0 = None"
  using assms by (auto simp: find_None_iff owned_by_def)

lemma calculate_user_statistics_other:
  assumes "user_id c \<noteq> cu"
  shows "calculate_user_statistics A now (removeAll c d) cu
           = calculate_user_statistics A now d cu"
  using assms
  by (simp add: calculate_user_statistics_def get_calculations_by_day_def
      filter_removeAll_other cong: if_cong)

lemma get_paginated_history_other:
  assumes "user_id c \<noteq> cu"
  shows "get_paginated_history (removeAll c d) cu page ps f = get_paginated_history d cu page ps f"
  using assms
  by (simp add: get_paginated_history_def history_query_def filter_removeAll_other)

lemma get_operation_statistics_other:
  assumes "user_id c \<noteq> cu"
  shows "get_operation_statistics A (removeAll c d) cu operation
           = get_operation_statistics A d cu operation"
  using assms
  by (simp add: get_operation_statistics_def operation_query_def filter_removeAll_other)

lemma history_query_owner: "x \<in> set (history_query d cu f) \<Longrightarrow> user_id x = cu"
  by (auto simp: history_query_def Let_def split: option.splits if_splits)

lemma history_rows_owner:
  assumes "get_paginated_history d cu page ps f = Inr h" and "row \<in> set (hp_calculations h)"
  shows "hr_user_id row = cu"
proof -
  have "hp_calculations h = map history_dict
      (take (nat ps) (drop (nat ((page - 1) * ps))
         (order_by_created_desc (history_query d cu f))))"
    using assms(1) by (auto simp: get_paginated_history_def Let_def split: if_splits)
  then obtain x where x: "row = history_dict x"
      "x \<in> set (order_by_created_desc (history_query d cu f))"
    using assms(2) by (auto dest!: in_set_takeD in_set_dropD)
  then have "user_id x = cu"
    by (simp add: order_by_created_desc_set history_query_owner)
  then show ?thesis
    using x(1) by (simp add: history_dict_def)
qed

lemma recent_rows_owner:
  assumes "row \<in> set (us_recent_calculations (calculate_user_statistics A now d cu))"
  shows "\<exists>x \<in> set d. user_id x = cu \<and> row = recent_dict x"
proof -
  have "row \<in> set (map recent_dict
      (take 10 (order_by_created_desc (filter (\<lambda>c. user_id c = cu) d))))"
    using assms
    by (auto simp: calculate_user_statistics_def Let_def split: if_splits prod.splits)
  then obtain x where "row = recent_dict x"
      "x \<in> set (order_by_created_desc (filter (\<lambda>c. user_id c = cu) d))"
    by (auto dest!: in_set_takeD)
  then show ?thesis
    by (auto simp: order_by_created_desc_set)
qed

text \<open>
  Claim C7. Let a row with a unique id be owned by another user than the caller. The
  routes that read, update and delete one record answer the caller with \<open>NotFound\<close>
  and leave the table as it is, exactly as they do on a table \<open>d0\<close> in which no row
  has that id. The summary, the paginated history and the operation statistics of the
  caller are the same as on the table without the row, and neither the recent
  calculations nor any history page contains the row.
\<close>

theorem C7_ownership_isolation:
  assumes "distinct (map calc_id d)" and "c \<in> set d" and "user_id c \<noteq> cu"
    and "UUID cid = Some (calc_id c)" and "\<forall>x \<in> set d0. calc_id x \<noteq> calc_id c"
  shows "get_calculation UUID d cid cu = Inl NotFound
       \<and> get_calculation UUID d0 cid cu = Inl NotFound
       \<and> update_calculation UUID g now d cid u cu = (d, Inl NotFound)
       \<and> update_calculation UUID g now d0 cid u cu = (d0, Inl NotFound)
       \<and> update_calculation_patched A UUID now d cid u cu = (d, Inl NotFound)
       \<and> update_calculation_patched A UUID now d0 cid u cu = (d0, Inl NotFound)
       \<and> delete_calculation UUID d cid cu = (d, Inl NotFound)
       \<and> delete_calculation UUID d0 cid cu = (d0, Inl NotFound)
       \<and> calculate_user_statistics A now d cu
            = calculate_user_statistics A now (removeAll c d) cu
       \<and> recent_dict c \<notin> set (us_recent_calculations (calculate_user_statistics A now d cu))
       \<and> get_paginated_history d cu page ps f
            = get_paginated_history (removeAll c d) cu page ps f
       \<and> (\<forall>h. get_paginated_history d cu page ps f = Inr h \<longrightarrow>
             history_dict c \<notin> set (hp_calculations h))
       \<and> get_operation_statistics A d cu operation
            = get_operation_statistics A (removeAll c d) cu operation"
proof -
  have fd: "find (owned_by (calc_id c) cu) d = None"
    using assms(1-3) by (rule find_owned_other)
  have f0: "find (owned_by (calc_id c) cu) d0 = None"
    using assms(5) by (rule find_owned_absent)
  have single: "get_calculation UUID d cid cu = Inl NotFound
       \<and> get_calculation UUID d0 cid cu = Inl NotFound
       \<and> update_calculation UUID g now d cid u cu = (d, Inl NotFound)
       \<and> update_calculation UUID g now d0 cid u cu = (d0, Inl NotFound)
       \<and> update_calculation_patched A UUID now d cid u cu = (d, Inl NotFound)
       \<and> update_calculation_patched A UUID now d0 cid u cu = (d0, Inl NotFound)
       \<and> delete_calculation UUID d cid cu = (d, Inl NotFound)
       \<and> delete_calculation UUID d0 cid cu = (d0, Inl NotFound)"
    by (simp add: get_calculation_def update_calculation_def update_calculation_patched_def
        delete_calculation_def assms(4) fd f0)
  have recent:
    "recent_dict c \<notin> set (us_recent_calculations (calculate_user_statistics A now d cu))"
  proof
    assume "recent_dict c \<in> set (us_recent_calculations (calculate_user_statistics A now d cu))"
    then obtain x where x: "x \<in> set d" "user_id x = cu" "recent_dict c = recent_dict x"
      using recent_rows_owner by blast
    from x(3) have "rr_id (recent_dict c) = rr_id (recent_dict x)"
      by simp
    then have "calc_id x = calc_id c"
      by (simp add: recent_dict_def)
    moreover have "inj_on calc_id (set d)"
      using assms(1) by (simp add: distinct_map)
    ultimately have "x = c"
      using x(1) assms(2) by (auto dest: inj_onD)
    then show False
      using x(2) assms(3) by simp
  qed
  have page: "\<forall>h. get_paginated_history d cu page ps f = Inr h \<longrightarrow>
      history_dict c \<notin> set (hp_calculations h)"
  proof (intro allI impI notI)
    fix h
    assume "get_paginated_history d cu page ps f = Inr h"
      and "history_dict c \<in> set (hp_calculations h)"
    then have "hr_user_id (history_dict c) = cu"
      by (rule history_rows_owner)
    then show False
      using assms(3) by (simp add: history_dict_def)
  qed
  show ?thesis
    using single recent page
      calculate_user_statistics_other [OF assms(3), of A now d]
      get_paginated_history_other [OF assms(3), of d page ps f]
      get_operation_statistics_other [OF assms(3), of A d operation]
    by simp
qed

theorem C7_ownership_isolation_witness:
  "get_calculation example_UUID example_db ''c1'' 9 = Inl NotFound
 \<and> get_calculation example_UUID (tl example_db) ''c1'' 9 = Inl NotFound
 \<and> update_calculation example_UUID (get_result exact_arith) 600 example_db ''c1''
      type_only_update 9
      = (example_db, Inl NotFound)
 \<and> update_calculation_patched exact_arith example_UUID 600 example_db ''c1''
      type_only_update 9
      = (example_db, Inl NotFound)
 \<and> delete_calculation example_UUID example_db ''c1'' 9 = (example_db, Inl NotFound)
 \<and> delete_calculation example_UUID (tl example_db) ''c1'' 9 = (tl example_db, Inl NotFound)
 \<and> calculate_user_statistics exact_arith 600 example_db 9
      = calculate_user_statistics exact_arith 600 (removeAll (hd example_db) example_db) 9
 \<and> get_operation_statistics exact_arith example_db 9 ''addition''
      = get_operation_statistics exact_arith (removeAll (hd example_db) example_db) 9
          ''addition''
 \<and> get_calculation example_UUID example_db ''c1'' 7 = Inr (hd example_db)"
proof -
  have a: "distinct (map calc_id example_db)"
    by (simp add: example_db_def)
  have b: "hd example_db \<in> set example_db"
    by (simp add: example_db_def)
  have c: "user_id (hd example_db) \<noteq> 9"
    by (simp add: example_db_def)
  have d: "example_UUID ''c1'' = Some (calc_id (hd example_db))"
    by (simp add: example_db_def example_UUID_def)
  have e: "\<forall>x \<in> set (tl example_db). calc_id x \<noteq> calc_id (hd example_db)"
    by (simp add: example_db_def)
  have own: "get_calculation example_UUID example_db ''c1'' 7 = Inr (hd example_db)"
    by (simp add: get_calculation_def example_UUID_def example_db_def owned_by_def)
  show ?thesis
    using own a b c d e
      C7_ownership_isolation [where d = example_db and c = "hd example_db" and cu = 9
        and UUID = example_UUID and cid = "''c1''" and ?d0.0 = "tl example_db"
        and g = "get_result exact_arith" and A = exact_arith and now = 600
        and u = type_only_update and page = 1
        and ps = 10 and f = None and operation = "''addition''"]
    by simp
qed

end
